theory Spec2Isabelle
  imports Main "HOL-Library.Word"
begin

section \<open>Data model\<close>

text \<open>
  A Node \<open>Buffer\<close> is a sequence of bytes. A JavaScript string is the sequence of its
  UTF-16 code units; \<open>string\<close> holds the code units below \<open>0x100\<close>, one \<open>char\<close> each, and
  a string with a higher code unit is outside the model. A JavaScript \<open>Error\<close> carries its
  message; a rejected SQLite statement is kept apart from the errors the application
  throws.
\<close>

type_synonym buffer = "8 word list"

datatype error = Error string | SqliteConstraint string

text \<open>
  \<open>interface UserFile\<close> of \<open>db/database.ts\<close>, one row of the table \<open>user_files\<close> of
  \<open>schema.sql\<close>. The column \<open>id\<close> is called \<open>uf_id\<close> here; a column declared without
  \<open>NOT NULL\<close> is an option.
\<close>

record user_file =
  uf_id :: string
  user_address :: string
  file_name :: string
  file_size :: nat
  file_hash :: string
  commp :: "string option"
  provider_id :: "string option"
  bridge_request_id :: "string option"
  payment_amount :: "string option"
  uploaded_at :: "int option"

text \<open>
  The table is the list of its rows in insertion order. \<open>schema.sql\<close> declares one
  constraint that can reject a statement of the typed interface: \<open>id TEXT PRIMARY KEY\<close>.
  The two indexes it creates (\<open>idx_user_files_address\<close>, \<open>idx_user_files_commp\<close>) are plain
  \<open>CREATE INDEX\<close>, not unique.
\<close>

type_synonym database = "user_file list"

text \<open>
  The second argument of \<open>updateUserFile\<close>,
  \<open>Partial<Pick<UserFile, 'commp' | 'provider_id' | 'uploaded_at'>>\<close>:
  each field is \<open>undefined\<close> (\<open>None\<close>) or a value, which may be \<open>null\<close>.
\<close>

record updates =
  upd_commp :: "string option option"
  upd_provider_id :: "string option option"
  upd_uploaded_at :: "int option option"

text \<open>
  One entry of the parallel arrays \<open>fields\<close> and \<open>values\<close> that \<open>updateUserFile\<close> builds
  (the list \<open>sets\<close> below): the text \<open>commp = ?\<close> with its bound value, and so on.
\<close>

datatype assignment =
    Set_commp "string option"
  | Set_provider_id "string option"
  | Set_uploaded_at "int option"

text \<open>The statements handed to \<open>db.run\<close>.\<close>

datatype statement =
    Insert user_file
  | Update "assignment list" string

section \<open>Database (db/database.ts)\<close>

text \<open>
  \<open>createUserFile\<close>: \<open>INSERT INTO user_files (...) VALUES (?, ..., ?)\<close> with the last bound
  value the literal \<open>null\<close>, so \<open>uploaded_at\<close> of a new row is always NULL. The promise is
  rejected when the schema refuses the row, which for a well-typed \<open>UserFile\<close> happens
  exactly when the primary key is already in the table. A failure of the database file
  itself is not modelled.
\<close>

definition createUserFile ::
  "database \<Rightarrow> user_file \<Rightarrow> (error + unit) \<times> database \<times> statement list" where
  "createUserFile db file =
     (let row = file\<lparr>uploaded_at := None\<rparr> in
      if uf_id file \<in> set (map uf_id db)
      then (Inl (SqliteConstraint ''UNIQUE constraint failed: user_files.id''), db, [Insert row])
      else (Inr (), db @ [row], [Insert row]))"


fun assign :: "assignment \<Rightarrow> user_file \<Rightarrow> user_file" where
  "assign (Set_commp v) r = r\<lparr>commp := v\<rparr>"
| "assign (Set_provider_id v) r = r\<lparr>provider_id := v\<rparr>"
| "assign (Set_uploaded_at v) r = r\<lparr>uploaded_at := v\<rparr>"

text \<open>\<open>UPDATE user_files SET f1 = ?, f2 = ?, ... WHERE id = ?\<close>.\<close>

definition run_update :: "assignment list \<Rightarrow> string \<Rightarrow> database \<Rightarrow> database" where
  "run_update sets i db = map (\<lambda>r. if uf_id r = i then fold assign sets r else r) db"

text \<open>
  \<open>updateUserFile\<close>: one \<open>fields.push\<close>/\<open>values.push\<close> per field that is
  \<open>!== undefined\<close>; with no field the function returns \<open>Promise.resolve()\<close> before
  \<open>db.run\<close>.
\<close>

definition updateUserFile ::
  "database \<Rightarrow> string \<Rightarrow> updates \<Rightarrow> (error + unit) \<times> database \<times> statement list" where
  "updateUserFile db i u =
     (let sets =
            (case upd_commp u of None \<Rightarrow> [] | Some v \<Rightarrow> [Set_commp v]) @
            (case upd_provider_id u of None \<Rightarrow> [] | Some v \<Rightarrow> [Set_provider_id v]) @
            (case upd_uploaded_at u of None \<Rightarrow> [] | Some v \<Rightarrow> [Set_uploaded_at v])
      in if length sets = 0 then (Inr (), db, [])
         else (Inr (), run_update sets i db, [Update sets i]))"





text \<open>
  \<open>getFileByCommp\<close>: \<open>SELECT * FROM user_files WHERE commp = ?\<close>, \<open>row || null\<close>. A NULL
  \<open>commp\<close> equals no bound value.
\<close>

definition getFileByCommp :: "database \<Rightarrow> string \<Rightarrow> user_file option" where
  "getFileByCommp db c = find (\<lambda>r. commp r = Some c) db"

section \<open>The outside world\<close>

text \<open>
  What the backend reads from its surroundings, as deterministic oracles: the environment
  variable \<open>FILECOIN_RPC_URL\<close>, the library \<open>@filoz/synapse-sdk\<close> (\<open>Synapse.create\<close>,
  \<open>createStorage\<close> followed by \<open>storage.upload\<close>, \<open>synapse.download\<close>), the clock and the
  digest of a payload. A library call that throws or rejects returns \<open>Inl\<close>.
\<close>

record synapse_instance =
  network :: string
  chainId :: nat

record sdk_upload_result =
  pieceCid :: string
  serviceProvider :: "string option"
  provider :: "string option"

record environment =
  FILECOIN_RPC_URL :: "string option"
  Synapse_create :: "string \<Rightarrow> string \<Rightarrow> error + synapse_instance"
  storage_upload :: "buffer \<Rightarrow> string \<Rightarrow> string \<Rightarrow> error + sdk_upload_result"
  synapse_download :: "string \<Rightarrow> error + buffer"
  Date_now :: int
  content_hash :: "buffer \<Rightarrow> string"

text \<open>
  The calls the backend makes to its collaborators, in the order it makes them. The last
  one is the wait of the spec's coordinator on its transfer watcher; nothing in the
  sources makes it.
\<close>

datatype event =
    Db statement
  | Synapse_create_call string string
  | Storage_upload_call buffer string string
  | Synapse_download_call string
  | Await_settlement string

section \<open>SynapseService (services/synapse.ts)\<close>

record synapse_service =
  synapse :: "synapse_instance option"
  privateKey :: string
  backendAddress :: string
  isInitialized :: bool

definition new_SynapseService :: "string \<Rightarrow> string \<Rightarrow> synapse_service" where
  "new_SynapseService pk addr =
     \<lparr>synapse = None, privateKey = pk, backendAddress = addr, isInitialized = False\<rparr>"

definition startsWith :: "string \<Rightarrow> string \<Rightarrow> bool" where
  "startsWith s p = (take (length p) s = p)"

text \<open>
  \<open>a || b\<close> on strings that may be \<open>undefined\<close>: the empty string is falsy.
\<close>

definition truthy :: "string option \<Rightarrow> bool" where
  "truthy x = (case x of None \<Rightarrow> False | Some v \<Rightarrow> v \<noteq> [])"

text \<open>
  \<open>initialize\<close>. \<open>rpcURL.replace('https://', 'wss://')\<close> replaces the first occurrence,
  which under the guard \<open>startsWith('https://')\<close> is the prefix. The two getters read
  for the log line do not change the service.
\<close>

definition initialize ::
  "environment \<Rightarrow> synapse_service \<Rightarrow> (error + unit) \<times> synapse_service \<times> event list" where
  "initialize env svc =
     (if isInitialized svc then (Inr (), svc, [])
      else
        let rpcURL0 = (if truthy (FILECOIN_RPC_URL env) then the (FILECOIN_RPC_URL env)
                       else ''wss://api.node.glif.io/rpc/v1'');
            rpcURL = (if startsWith rpcURL0 ''https://''
                      then ''wss://'' @ drop (length ''https://'') rpcURL0 else rpcURL0)
        in if \<not> startsWith rpcURL ''wss://''
           then (Inl (Error ''Filecoin requires WebSocket RPC (wss://). Please use wss://api.node.glif.io/rpc/v1 for mainnet or wss://api.calibration.node.glif.io/rpc/v1 for testnet''),
                 svc, [])
           else (case Synapse_create env (privateKey svc) rpcURL of
                   Inl e \<Rightarrow> (Inl e, svc, [Synapse_create_call (privateKey svc) rpcURL])
                 | Inr inst \<Rightarrow>
                     (Inr (), svc\<lparr>synapse := Some inst, isInitialized := True\<rparr>,
                      [Synapse_create_call (privateKey svc) rpcURL])))"

text \<open>
  \<open>await service.initialize(); await service.initialize();\<close>: a rejected first call
  ends the sequence.
\<close>

definition initialize_twice ::
  "environment \<Rightarrow> synapse_service \<Rightarrow> (error + unit) \<times> synapse_service \<times> event list" where
  "initialize_twice env svc =
     (case initialize env svc of
        (Inl e, svc1, ev1) \<Rightarrow> (Inl e, svc1, ev1)
      | (Inr _, svc1, ev1) \<Rightarrow>
          (case initialize env svc1 of (r, svc2, ev2) \<Rightarrow> (r, svc2, ev1 @ ev2)))"

record synapse_upload_result =
  res_commp :: string
  res_providerId :: string

text \<open>\<open>uploadFile\<close> of \<open>SynapseService\<close>.\<close>

definition SynapseService_uploadFile ::
  "environment \<Rightarrow> synapse_service \<Rightarrow> buffer \<Rightarrow> string \<Rightarrow> string
     \<Rightarrow> (error + synapse_upload_result) \<times> event list" where
  "SynapseService_uploadFile env svc fileBuffer addr name =
     (case synapse svc of
        None \<Rightarrow> (Inl (Error ''Synapse SDK not initialized''), [])
      | Some _ \<Rightarrow>
          (case storage_upload env fileBuffer addr name of
             Inl e \<Rightarrow> (Inl e, [Storage_upload_call fileBuffer addr name])
           | Inr result \<Rightarrow>
               (Inr \<lparr>res_commp = pieceCid result,
                     res_providerId =
                       (if truthy (serviceProvider result) then the (serviceProvider result)
                        else if truthy (provider result) then the (provider result)
                        else ''unknown'')\<rparr>,
                [Storage_upload_call fileBuffer addr name])))"

text \<open>\<open>downloadFile\<close> of \<open>SynapseService\<close>.\<close>

definition SynapseService_downloadFile ::
  "environment \<Rightarrow> synapse_service \<Rightarrow> string \<Rightarrow> (error + buffer) \<times> event list" where
  "SynapseService_downloadFile env svc c =
     (case synapse svc of
        None \<Rightarrow> (Inl (Error ''Synapse SDK not initialized''), [])
      | Some _ \<Rightarrow>
          (case synapse_download env c of
             Inl e \<Rightarrow> (Inl e, [Synapse_download_call c])
           | Inr data \<Rightarrow> (Inr data, [Synapse_download_call c])))"

section \<open>The storage router (routes/storage.ts)\<close>

text \<open>
  The state the router closes over: the database, the Synapse service, and the calls
  made so far (oldest first).
\<close>

record backend =
  db :: database
  service :: synapse_service
  calls :: "event list"

text \<open>
  \<open>uuidv4()\<close> draws a random version-4 UUID; the model hands out the \<open>n\<close>-th identifier
  of a supply of pairwise different ones, and the server counts the draws.
\<close>

definition uuidv4 :: "nat \<Rightarrow> string" where
  "uuidv4 n = ''uuid-'' @ replicate n (CHR ''1'')"

record server =
  uuids_drawn :: nat
  be :: backend

text \<open>
  \<open>String.prototype.toLowerCase\<close>. Among the code units below \<open>0x100\<close> the letters with a
  lower-case form are \<open>A\<close> to \<open>Z\<close> (65 to 90) and the Latin-1 capitals \<open>0xC0\<close> to \<open>0xDE\<close>
  without the multiplication sign \<open>0xD7\<close>; each is mapped to the code unit 32 above it, and
  no mapping depends on the neighbours of a code unit.
\<close>

definition lower_char :: "char \<Rightarrow> char" where
  "lower_char c =
     (let n = (of_char c :: nat)
      in if (65 \<le> n \<and> n \<le> 90) \<or> (192 \<le> n \<and> n \<le> 214) \<or> (216 \<le> n \<and> n \<le> 222)
         then char_of (n + 32) else c)"

definition toLowerCase :: "string \<Rightarrow> string" where
  "toLowerCase s = map lower_char s"

text \<open>
  The request as the handler reads it: \<open>req.file\<close> as multer's memory storage leaves it,
  and the three text fields of \<open>req.body\<close>, each absent or a string.
\<close>

record multer_file =
  originalname :: string
  buffer :: buffer

record storage_request =
  req_file :: "multer_file option"
  req_userAddress :: "string option"
  req_bridgeRequestId :: "string option"
  req_paymentAmount :: "string option"

text \<open>The argument object of \<open>uploadService.initiateUpload\<close>.\<close>

record upload_params =
  p_fileBuffer :: buffer
  p_fileName :: string
  p_userAddress :: string
  p_fileId :: string
  p_bridgeRequestId :: string
  p_paymentAmount :: string

type_synonym upload_service = "upload_params \<Rightarrow> backend \<Rightarrow> (error + unit) \<times> backend"

datatype json =
    JNull
  | JBool bool
  | JString string
  | JNumber int
  | JArray "json list"
  | JObject "(string \<times> json) list"

record download_headers =
  content_type :: string
  content_disposition :: string
  content_length :: nat

text \<open>\<open>res.status(n).json(body)\<close> (\<open>res.json\<close> alone is status 200), or headers and \<open>res.send\<close>.\<close>

datatype response =
    Json nat json
  | Send download_headers buffer

text \<open>\<open>error instanceof Error ? error.message : 'Unknown error'\<close>; both kinds are \<open>Error\<close>s.\<close>

fun message :: "error \<Rightarrow> string" where
  "message (Error m) = m"
| "message (SqliteConstraint m) = ''SQLITE_CONSTRAINT: '' @ m"

text \<open>
  \<open>POST /api/initiate-storage\<close>. \<open>UploadService\<close> is not among the sources, so the handler
  takes \<open>initiateUpload\<close> as a parameter; its returned value is not read by the handler.
\<close>

definition post_initiate_storage ::
  "upload_service \<Rightarrow> storage_request \<Rightarrow> server \<Rightarrow> response \<times> server" where
  "post_initiate_storage initiateUpload req s =
     (case req_file req of
        None \<Rightarrow> (Json 400 (JObject [(''error'', JString ''No file provided'')]), s)
      | Some f \<Rightarrow>
          if \<not> truthy (req_userAddress req)
          then (Json 400 (JObject [(''error'', JString ''userAddress is required'')]), s)
          else if \<not> truthy (req_bridgeRequestId req)
          then (Json 400 (JObject [(''error'',
                  JString ''bridgeRequestId is required - payment must be made before upload'')]), s)
          else if \<not> truthy (req_paymentAmount req)
          then (Json 400 (JObject [(''error'', JString ''paymentAmount is required'')]), s)
          else
            let normalizedAddress = toLowerCase (the (req_userAddress req));
                fileId = uuidv4 (uuids_drawn s);
                fileName = (if originalname f = [] then ''unnamed'' else originalname f);
                (r, b) = initiateUpload
                  \<lparr>p_fileBuffer = buffer f, p_fileName = fileName,
                   p_userAddress = normalizedAddress, p_fileId = fileId,
                   p_bridgeRequestId = the (req_bridgeRequestId req),
                   p_paymentAmount = the (req_paymentAmount req)\<rparr> (be s);
                s' = \<lparr>uuids_drawn = Suc (uuids_drawn s), be = b\<rparr>
            in (case r of
                  Inr _ \<Rightarrow>
                    (Json 200 (JObject [(''fileId'', JString fileId),
                       (''status'', JString ''completed''),
                       (''message'', JString ''File uploaded successfully'')]), s')
                | Inl e \<Rightarrow>
                    (Json 500 (JObject [(''error'', JString ''Failed to initiate storage''),
                       (''message'', JString (message e))]), s')))"




text \<open>
  \<open>res.setHeader\<close> throws \<open>ERR_INVALID_CHAR\<close> when the value has a code unit outside tab,
  \<open>0x20\<close> to \<open>0x7E\<close> and \<open>0x80\<close> to \<open>0xFF\<close>.
\<close>

definition valid_header_unit :: "char \<Rightarrow> bool" where
  "valid_header_unit c = (let n = (of_char c :: nat) in n = 9 \<or> (32 \<le> n \<and> n \<noteq> 127))"

definition valid_header_value :: "string \<Rightarrow> bool" where
  "valid_header_value v = list_all valid_header_unit v"

text \<open>
  \<open>GET /api/download/:commp\<close>. The three \<open>setHeader\<close> calls come after the download; the
  first and the third cannot throw, the second throws on a file name that is not valid
  header content, and the \<open>catch\<close> then answers 500.
\<close>

definition get_download :: "environment \<Rightarrow> string \<Rightarrow> backend \<Rightarrow> response \<times> backend" where
  "get_download env c b =
     (case getFileByCommp (db b) c of
        None \<Rightarrow> (Json 404 (JObject [(''error'', JString ''File not found'')]), b)
      | Some f \<Rightarrow>
          (case SynapseService_downloadFile env (service b) c of
             (Inl e, ev) \<Rightarrow>
               (Json 500 (JObject [(''error'', JString ''Failed to download file''),
                  (''message'', JString (message e))]), b\<lparr>calls := calls b @ ev\<rparr>)
           | (Inr fileBuffer, ev) \<Rightarrow>
               (let disposition =
                      ''attachment; filename='' @ [CHR 0x22] @ file_name f @ [CHR 0x22]
                in if \<not> valid_header_value disposition
                   then (Json 500 (JObject [(''error'', JString ''Failed to download file''),
                           (''message'', JString (''Invalid character in header content [''
                              @ [CHR 0x22] @ ''Content-Disposition'' @ [CHR 0x22] @ '']''))]),
                         b\<lparr>calls := calls b @ ev\<rparr>)
                   else (Send \<lparr>content_type = ''application/octet-stream'',
                               content_disposition = disposition,
                               content_length = length fileBuffer\<rparr> fileBuffer,
                         b\<lparr>calls := calls b @ ev\<rparr>))))"

section \<open>The upload service\<close>

text \<open>
  Modelled from the spec: \<open>UploadService.initiateUpload\<close> (\<open>services/upload.ts\<close>) is not
  among the sources; only its construction from the database and the Synapse service and
  its one call in the handler above are. What follows is the spec's ingestion coordinator
  (section 4.2, steps 1 to 9) over the \<open>Database\<close> and the \<open>SynapseService\<close> of the sources,
  which stand for the spec's record store and content store. The transfer watcher is a
  collaborator of the coordinator and is taken as it answers: whether a transfer is
  already known to be confirmed, and the terminal state \<open>await\<close> returns for it. The
  sketch of the function in \<open>ARCHITECTURE-SIMPLIFIED.md\<close> differs from the spec: it uploads
  first and inserts the row afterwards.
\<close>

datatype watch_status = Executed | Fulfilled | TimedOut

record coordinator_config =
  size_bound :: nat
  already_confirmed :: "string \<Rightarrow> bool"
  TransferWatcher_await :: "string \<Rightarrow> watch_status"

record ingest_call =
  i_id :: string
  i_ownerId :: string
  i_fileName :: string
  i_payload :: buffer
  i_declaredHash :: "string option"
  i_transferRef :: "string option"
  i_paymentAmount :: "string option"

record ingestion_result =
  r_id :: string
  r_contentAddress :: string
  r_status :: string

text \<open>
  Modelled from the spec, step 4: the record in \<open>pending\<close> state, with neither content
  address nor time.
\<close>

definition pending_record :: "environment \<Rightarrow> ingest_call \<Rightarrow> user_file" where
  "pending_record env c =
     \<lparr>uf_id = i_id c, user_address = i_ownerId c, file_name = i_fileName c,
      file_size = length (i_payload c),
      file_hash = content_hash env (i_payload c),
      commp = None, provider_id = None,
      bridge_request_id = i_transferRef c,
      payment_amount = i_paymentAmount c, uploaded_at = None\<rparr>"

text \<open>
  Modelled from the spec: step 3 looks for a stored record of the same owner and content,
  step 6 for a stored record of another id that carries the transfer.
\<close>

definition prior_stored :: "database \<Rightarrow> string \<Rightarrow> string \<Rightarrow> user_file option" where
  "prior_stored d owner h =
     find (\<lambda>r. user_address r = owner \<and> file_hash r = h \<and> commp r \<noteq> None) d"

definition redeemed_elsewhere :: "database \<Rightarrow> string option \<Rightarrow> string \<Rightarrow> bool" where
  "redeemed_elsewhere d t i =
     (case t of
        None \<Rightarrow> False
      | Some ref \<Rightarrow>
          list_ex (\<lambda>r. commp r \<noteq> None \<and> bridge_request_id r = Some ref \<and> uf_id r \<noteq> i) d)"

text \<open>
  Modelled from the spec: steps 5 to 8, entered once the pending record is in the table.
  \<open>sizeBytes\<close> is written with the pending record, since \<open>file_size\<close> is \<open>NOT NULL\<close> and
  no update sets it.
\<close>

definition settle_and_store ::
  "environment \<Rightarrow> coordinator_config \<Rightarrow> ingest_call \<Rightarrow> backend
     \<Rightarrow> (error + ingestion_result) \<times> backend" where
  "settle_and_store env cfg c b1 =
     (let gate = (case i_transferRef c of
                    None \<Rightarrow> False | Some ref \<Rightarrow> \<not> already_confirmed cfg ref);
          b2 = (if gate then b1\<lparr>calls := calls b1 @ [Await_settlement (the (i_transferRef c))]\<rparr>
                else b1)
      in if gate \<and> TransferWatcher_await cfg (the (i_transferRef c)) = TimedOut
         then (Inl (Error ''PaymentNotConfirmed''), b2)
         else if redeemed_elsewhere (db b2) (i_transferRef c) (i_id c)
         then (Inl (Error ''TransferAlreadyRedeemed''), b2)
         else (case SynapseService_uploadFile env (service b2)
                      (i_payload c) (i_ownerId c) (i_fileName c) of
                 (Inl e, ev) \<Rightarrow>
                   (Inl (Error (''StorageWriteFailed: '' @ message e)),
                    b2\<lparr>calls := calls b2 @ ev\<rparr>)
               | (Inr result, ev) \<Rightarrow>
                   (let (r2, db2, st2) = updateUserFile (db b2) (i_id c)
                          \<lparr>upd_commp = Some (Some (res_commp result)),
                           upd_provider_id = Some (Some (res_providerId result)),
                           upd_uploaded_at = Some (Some (Date_now env))\<rparr>;
                        b3 = b2\<lparr>db := db2, calls := calls b2 @ ev @ map Db st2\<rparr>
                    in (case r2 of
                          Inl e \<Rightarrow> (Inl e, b3)
                        | Inr _ \<Rightarrow>
                            (Inr \<lparr>r_id = i_id c, r_contentAddress = res_commp result,
                                  r_status = ''completed''\<rparr>, b3)))))"

text \<open>Modelled from the spec: steps 1 to 4, and then the rest.\<close>

definition ingest ::
  "environment \<Rightarrow> coordinator_config \<Rightarrow> ingest_call \<Rightarrow> backend
     \<Rightarrow> (error + ingestion_result) \<times> backend" where
  "ingest env cfg c b =
     (if i_ownerId c = [] \<or> i_payload c = [] \<or> size_bound cfg < length (i_payload c)
           \<or> i_paymentAmount c = None
      then (Inl (Error ''InvalidRequest''), b)
      else
        let contentHash = content_hash env (i_payload c)
        in if (case i_declaredHash c of None \<Rightarrow> False | Some h \<Rightarrow> h \<noteq> contentHash)
           then (Inl (Error ''IntegrityMismatch''), b)
           else (case prior_stored (db b) (i_ownerId c) contentHash of
                   Some r \<Rightarrow>
                     (Inr \<lparr>r_id = uf_id r, r_contentAddress = the (commp r),
                           r_status = ''completed''\<rparr>, b)
                 | None \<Rightarrow>
                     (let (r1, db1, st1) = createUserFile (db b) (pending_record env c);
                          b1 = b\<lparr>db := db1, calls := calls b @ map Db st1\<rparr>
                      in (case r1 of
                            Inl e \<Rightarrow> (Inl e, b1)
                          | Inr _ \<Rightarrow> settle_and_store env cfg c b1))))"

text \<open>
  Modelled from the spec: the coordinator as the handler calls it, with the identifier,
  the lowercase address, the file and the two payment fields of the request and no
  declared hash; the handler does not read the result.
\<close>

definition initiateUpload :: "environment \<Rightarrow> coordinator_config \<Rightarrow> upload_service" where
  "initiateUpload env cfg p b =
     (case ingest env cfg
             \<lparr>i_id = p_fileId p, i_ownerId = p_userAddress p, i_fileName = p_fileName p,
              i_payload = p_fileBuffer p, i_declaredHash = None,
              i_transferRef = Some (p_bridgeRequestId p),
              i_paymentAmount = Some (p_paymentAmount p)\<rparr> b of
        (Inl e, b') \<Rightarrow> (Inl e, b')
      | (Inr _, b') \<Rightarrow> (Inr (), b'))"

section \<open>The client (sdk/src/synapse/client.ts)\<close>

text \<open>
  \<open>OnlySwapsService\<close> is not among the sources; the client reaches it through three
  methods, taken here as oracles. \<open>waitForExecution\<close> rejects when its timeout passes.
\<close>

record fees =
  solverFee :: nat
  networkFee :: nat
  approvalAmount :: nat

record onlyswaps =
  fetchRecommendedFeesBySymbol :: "string \<Rightarrow> nat \<Rightarrow> nat \<Rightarrow> string \<Rightarrow> nat \<Rightarrow> error + fees"
  swapBySymbol :: "string \<Rightarrow> nat \<Rightarrow> nat \<Rightarrow> string \<Rightarrow> nat \<Rightarrow> string \<Rightarrow> nat \<Rightarrow> error + string"
  waitForExecution :: "string \<Rightarrow> nat \<Rightarrow> nat \<Rightarrow> error + unit"

text \<open>\<open>constants.ts\<close>: \<open>parseUnits('0.1', 18)\<close> and the Filecoin chain id.\<close>

definition PAYMENT_PER_UPLOAD_USDFC :: nat where
  "PAYMENT_PER_UPLOAD_USDFC = 10 ^ 17"

definition FILECOIN_CHAIN_ID :: nat where
  "FILECOIN_CHAIN_ID = 314"

record form_data =
  fd_file :: buffer
  fd_fileName :: string
  fd_userAddress :: string
  fd_bridgeRequestId :: string
  fd_paymentAmount :: string

text \<open>The calls the client and the example script make, in order.\<close>

datatype client_call =
    Fetch_recommended_fees nat string
  | Swap_by_symbol nat string nat string
  | Fetch_request_params string
  | Fetch_fulfillment_receipt string
  | Wait_for_execution string nat nat
  | Post_initiate_storage form_data

record client =
  backendUrl :: string
  onlySwaps :: "onlyswaps option"
  client_backendAddress :: "string option"
  env_BACKEND_FILECOIN_ADDRESS :: "string option"

text \<open>
  \<open>bridgePayment\<close>: fees, swap, then \<open>waitForExecution\<close> with a timeout of 300000 ms and
  an interval of 5000 ms; the request id is returned only after the wait has resolved.
\<close>

definition bridgePayment ::
  "client \<Rightarrow> nat \<Rightarrow> string \<Rightarrow> (error + string) \<times> client_call list" where
  "bridgePayment cl sourceChainId sourceTokenSymbol =
     (case onlySwaps cl of
        None \<Rightarrow> (Inl (Error ''OnlySwaps not initialized. Please provide walletClient, publicClient, and routerAddress in config.''), [])
      | Some os \<Rightarrow>
          if \<not> truthy (client_backendAddress cl) \<and> \<not> truthy (env_BACKEND_FILECOIN_ADDRESS cl)
          then (Inl (Error ''Backend Filecoin address not configured. Pass backendFilecoinAddress in config or set BACKEND_FILECOIN_ADDRESS env var.''), [])
          else
            let recipient = (if truthy (client_backendAddress cl)
                             then the (client_backendAddress cl)
                             else the (env_BACKEND_FILECOIN_ADDRESS cl));
                isMainnet = (sourceChainId = 8453 \<or> sourceChainId = 1 \<or> sourceChainId = 42161);
                env = (if isMainnet then ''mainnet'' else ''testnet'');
                c1 = [Fetch_recommended_fees sourceChainId sourceTokenSymbol]
            in (case fetchRecommendedFeesBySymbol os env sourceChainId FILECOIN_CHAIN_ID
                       sourceTokenSymbol PAYMENT_PER_UPLOAD_USDFC of
                  Inl e \<Rightarrow> (Inl e, c1)
                | Inr fs \<Rightarrow>
                    let c2 = c1 @ [Swap_by_symbol sourceChainId sourceTokenSymbol
                                     (approvalAmount fs) recipient]
                    in (case swapBySymbol os env sourceChainId FILECOIN_CHAIN_ID
                               sourceTokenSymbol (approvalAmount fs) recipient (solverFee fs) of
                          Inl e \<Rightarrow> (Inl e, c2)
                        | Inr requestId \<Rightarrow>
                            let c3 = c2 @ [Wait_for_execution requestId 300000 5000]
                            in (case waitForExecution os requestId 300000 5000 of
                                  Inl e \<Rightarrow> (Inl e, c3)
                                | Inr _ \<Rightarrow> (Inr requestId, c3)))))"

text \<open>
  The \<open>file\<close> argument of \<open>uploadFile\<close>: a \<open>File\<close>, a \<open>Uint8Array\<close> or a \<open>Buffer\<close>; any other
  value reaches the final \<open>else\<close>.
\<close>

datatype file_arg = A_File buffer | A_Uint8Array buffer | A_Buffer buffer | A_other

record upload_file_params =
  up_file :: file_arg
  up_fileName :: string
  up_userAddress :: string
  up_sourceChainId :: nat
  up_sourceTokenSymbol :: string

text \<open>
  What \<open>fetch\<close> resolves to: \<open>ok\<close>, \<open>statusText\<close>, and what \<open>response.json()\<close> gives, the
  parsed body or the \<open>SyntaxError\<close> of the parser.
\<close>

record http_response =
  ok :: bool
  statusText :: string
  body_json :: "error + json"

text \<open>
  Reading a property of a parsed value other than \<open>null\<close>: of a repeated key
  \<open>JSON.parse\<close> keeps the last, and a value that is not an object has no such property.
\<close>

fun json_field :: "string \<Rightarrow> json \<Rightarrow> json option" where
  "json_field k (JObject kvs) = map_of (rev kvs) k"
| "json_field k _ = None"

text \<open>The decimal text of a \<open>bigint\<close>.\<close>

function toString :: "nat \<Rightarrow> string" where
  "toString n =
     (if n < 10 then [char_of (48 + n)] else toString (n div 10) @ [char_of (48 + n mod 10)])"
  by pat_completeness auto
termination
  by (relation "measure (\<lambda>n. n)") auto

declare toString.simps [simp del]

text \<open>
  A value under \<open>||\<close> and inside a template literal. An array prints its elements
  separated by commas, \<open>null\<close> among them as nothing; numbers are integers here.
\<close>

fun js_truthy :: "json \<Rightarrow> bool" where
  "js_truthy JNull = False"
| "js_truthy (JBool v) = v"
| "js_truthy (JString v) = (v \<noteq> [])"
| "js_truthy (JNumber n) = (n \<noteq> 0)"
| "js_truthy (JArray vs) = True"
| "js_truthy (JObject kvs) = True"

fun join_comma :: "string list \<Rightarrow> string" where
  "join_comma [] = []"
| "join_comma [v] = v"
| "join_comma (v # w # vs) = v @ '','' @ join_comma (w # vs)"

fun js_String :: "json \<Rightarrow> string" where
  "js_String JNull = ''null''"
| "js_String (JBool v) = (if v then ''true'' else ''false'')"
| "js_String (JString v) = v"
| "js_String (JNumber n) = (if n < 0 then ''-'' @ toString (nat (- n)) else toString (nat n))"
| "js_String (JArray vs) = join_comma (map (\<lambda>v. if v = JNull then [] else js_String v) vs)"
| "js_String (JObject kvs) = ''[object Object]''"

text \<open>
  \<open>uploadFile\<close> of \<open>SynapseStorageClient\<close>, as the source has it: the call of
  \<open>bridgePayment\<close> is commented out under the log line
  \<open>SKIPPING BRIDGING FOR NOW!!!! ENABLE LATER!!!!\<close> and \<open>bridgeResult\<close> is the constant
  object with \<open>bridgeRequestId: '0x1234567890'\<close>. The first argument is the backend as
  \<open>fetch\<close> reaches it.
\<close>

definition SynapseStorageClient_uploadFile ::
  "(form_data \<Rightarrow> error + http_response) \<Rightarrow> client \<Rightarrow> upload_file_params
     \<Rightarrow> (error + json) \<times> client_call list" where
  "SynapseStorageClient_uploadFile fetch cl params =
     (let bridgeRequestId = ''0x1234567890'' in
      case (case up_file params of
              A_Uint8Array d \<Rightarrow> Some d | A_Buffer d \<Rightarrow> Some d | A_File d \<Rightarrow> Some d
            | A_other \<Rightarrow> None) of
        None \<Rightarrow> (Inl (Error ''Invalid file type. Expected File, Uint8Array, or Buffer.''), [])
      | Some fileData \<Rightarrow>
          let formData = \<lparr>fd_file = fileData, fd_fileName = up_fileName params,
                           fd_userAddress = up_userAddress params,
                           fd_bridgeRequestId = bridgeRequestId,
                           fd_paymentAmount = toString PAYMENT_PER_UPLOAD_USDFC\<rparr>
          in (case fetch formData of
                Inl e \<Rightarrow> (Inl e, [Post_initiate_storage formData])
              | Inr uploadResponse \<Rightarrow>
                  if \<not> ok uploadResponse
                  then
                    (let errorData = (case body_json uploadResponse of
                                        Inl _ \<Rightarrow> JObject [] | Inr v \<Rightarrow> v)
                     in if errorData = JNull
                        then (Inl (Error (''Cannot read properties of null (reading ''
                                @ [CHR 0x27] @ ''message'' @ [CHR 0x27] @ '')'')),
                              [Post_initiate_storage formData])
                        else (Inl (Error (''Upload failed: '' @
                                (case json_field ''message'' errorData of
                                   None \<Rightarrow> statusText uploadResponse
                                 | Some m \<Rightarrow>
                                     if js_truthy m then js_String m
                                     else statusText uploadResponse))),
                              [Post_initiate_storage formData]))
                  else (case body_json uploadResponse of
                          Inl e \<Rightarrow> (Inl e, [Post_initiate_storage formData])
                        | Inr result \<Rightarrow> (Inr result, [Post_initiate_storage formData]))))"

section \<open>The swap example (sdk/examples, step 4 of \<open>main\<close>)\<close>

text \<open>
  The part of \<open>main\<close> after the swap was submitted: one status query
  (\<open>fetchRequestParams\<close> and \<open>fetchFulfillmentReceipt\<close> under \<open>Promise.all\<close>), the early
  return, and otherwise \<open>waitForExecution\<close>, the only place that sleeps between polls;
  when that rejects, a second status query whose rejection leaves \<open>main\<close>. Of each
  status only \<open>executed\<close> and \<open>fulfilled\<close> decide anything; the other fields are printed.
\<close>

datatype main_outcome = Returned | Rejected error

definition main_wait ::
  "string \<Rightarrow> (error + bool) \<Rightarrow> (error + bool) \<Rightarrow> (error + unit)
     \<Rightarrow> (error + bool) \<Rightarrow> (error + bool) \<Rightarrow> main_outcome \<times> client_call list" where
  "main_wait requestId currentParams currentReceipt waited laterParams laterReceipt =
     (let c1 = [Fetch_request_params requestId, Fetch_fulfillment_receipt requestId];
          settled = (case (currentParams, currentReceipt) of
                       (Inr executed, Inr fulfilled) \<Rightarrow> executed \<or> fulfilled
                     | _ \<Rightarrow> False)
      in if settled then (Returned, c1)
         else
           let c2 = c1 @ [Wait_for_execution requestId 300000 5000]
           in (case waited of
                 Inr _ \<Rightarrow> (Returned, c2)
               | Inl _ \<Rightarrow>
                   (let c3 = c2 @ [Fetch_request_params requestId,
                                   Fetch_fulfillment_receipt requestId]
                    in case laterParams of
                         Inl e \<Rightarrow> (Rejected e, c3)
                       | Inr _ \<Rightarrow>
                           (case laterReceipt of
                              Inl e \<Rightarrow> (Rejected e, c3)
                            | Inr _ \<Rightarrow> (Returned, c3)))))"

section \<open>Vocabulary of the properties\<close>

text \<open>The columns \<open>updateUserFile\<close> has no assignment for.\<close>

definition frame_columns ::
  "user_file \<Rightarrow> string \<times> string \<times> string \<times> nat \<times> string \<times> string option \<times> string option" where
  "frame_columns r =
     (uf_id r, user_address r, file_name r, file_size r, file_hash r,
      bridge_request_id r, payment_amount r)"

text \<open>
  A record is \<open>stored\<close> once it carries a content address. \<open>transfer_refs_unique\<close> says
  that no transfer reference is carried by two stored records.
\<close>

definition stored :: "user_file \<Rightarrow> bool" where
  "stored r = (commp r \<noteq> None)"

definition transfer_refs_unique :: "database \<Rightarrow> bool" where
  "transfer_refs_unique d =
     distinct (map bridge_request_id (filter (\<lambda>r. stored r \<and> bridge_request_id r \<noteq> None) d))"

text \<open>The client calls that move or await a payment.\<close>

definition is_settlement_call :: "client_call \<Rightarrow> bool" where
  "is_settlement_call c =
     (case c of Swap_by_symbol _ _ _ _ \<Rightarrow> True | Wait_for_execution _ _ _ \<Rightarrow> True
      | _ \<Rightarrow> False)"










section \<open>Example inputs\<close>

text \<open>
  A storage network that accepts every upload under one piece CID, a transfer watcher that
  reports every transfer fulfilled, an initialised service, and the request the client
  sends for the five bytes of \<open>hello\<close>.
\<close>

definition example_env :: environment where
  "example_env =
     \<lparr>FILECOIN_RPC_URL = Some ''https://api.calibration.node.glif.io/rpc/v1'',
      Synapse_create = (\<lambda>k u. Inr \<lparr>network = ''calibration'', chainId = 314159\<rparr>),
      storage_upload = (\<lambda>d a n. Inr \<lparr>pieceCid = ''bafkzcib-hello'',
                          serviceProvider = Some ''0xprovider'', provider = None\<rparr>),
      synapse_download = (\<lambda>c. if c = ''bafkzcib-hello'' then Inr [104, 101, 108, 108, 111]
                               else Inl (Error ''piece not found'')),
      Date_now = 1700000000000,
      content_hash = (\<lambda>d. ''2cf24dba5fb0a30e'')\<rparr>"

definition example_config :: coordinator_config where
  "example_config =
     \<lparr>size_bound = 1048576, already_confirmed = (\<lambda>t. False),
      TransferWatcher_await = (\<lambda>t. Fulfilled)\<rparr>"

definition example_service :: synapse_service where
  "example_service =
     \<lparr>synapse = Some \<lparr>network = ''calibration'', chainId = 314159\<rparr>,
      privateKey = ''0xkey'', backendAddress = ''0xbackend'', isInitialized = True\<rparr>"

definition example_server :: server where
  "example_server =
     \<lparr>uuids_drawn = 0, be = \<lparr>db = [], service = example_service, calls = []\<rparr>\<rparr>"

definition example_file :: multer_file where
  "example_file = \<lparr>originalname = ''hello.txt'', buffer = [104, 101, 108, 108, 111]\<rparr>"

definition example_request :: storage_request where
  "example_request =
     \<lparr>req_file = Some example_file, req_userAddress = Some ''0xAbCdEf'',
      req_bridgeRequestId = Some ''0x1234567890'',
      req_paymentAmount = Some ''100000000000000000''\<rparr>"

definition example_row :: user_file where
  "example_row =
     \<lparr>uf_id = ''uuid-'', user_address = ''0xabcdef'', file_name = ''hello.txt'',
      file_size = 5, file_hash = ''2cf24dba5fb0a30e'', commp = Some ''bafkzcib-hello'',
      provider_id = Some ''0xprovider'', bridge_request_id = Some ''0x1234567890'',
      payment_amount = Some ''100000000000000000'', uploaded_at = Some 1700000000000\<rparr>"

definition example_backend :: backend where
  "example_backend = \<lparr>db = [example_row], service = example_service, calls = []\<rparr>"

text \<open>The same record under a file name with a line feed in it.\<close>

definition example_control_row :: user_file where
  "example_control_row = example_row\<lparr>file_name := ''hello'' @ [CHR 0x0A] @ ''.txt''\<rparr>"



section \<open>Auxiliary facts\<close>

lemma toString_payment: "toString PAYMENT_PER_UPLOAD_USDFC = ''100000000000000000''"
  by (simp add: PAYMENT_PER_UPLOAD_USDFC_def toString.simps char_of_def bit_Suc_0_iff)

















lemma frame_assign: "frame_columns (assign a r) = frame_columns r"
  by (cases a) (simp_all add: frame_columns_def)

lemma frame_fold_assign: "frame_columns (fold assign as r) = frame_columns r"
  by (induction as arbitrary: r) (simp_all add: frame_assign)

lemma frame_run_update: "map frame_columns (run_update as i d) = map frame_columns d"
  by (simp add: run_update_def frame_fold_assign)

lemma run_update_other:
  "k < length d \<Longrightarrow> uf_id (d ! k) \<noteq> i \<Longrightarrow> run_update as i d ! k = d ! k"
  by (simp add: run_update_def)




lemma getFileByCommp_None: "getFileByCommp d c = None \<longleftrightarrow> (\<forall>r\<in>set d. commp r \<noteq> Some c)"
  unfolding getFileByCommp_def by (induction d) auto

lemma uf_id_assign: "uf_id (assign a r) = uf_id r"
  by (cases a) simp_all

lemma uf_id_fold_assign: "uf_id (fold assign as r) = uf_id r"
  by (induction as arbitrary: r) (simp_all add: uf_id_assign)

lemma ids_run_update: "map uf_id (run_update as i d) = map uf_id d"
  unfolding run_update_def by (induction d) (simp_all add: uf_id_fold_assign)


















lemma bridgePayment_waits:
  "bridgePayment cl chain tok = (Inr requestId, cs) \<Longrightarrow>
     \<exists>os pre. onlySwaps cl = Some os \<and> cs = pre @ [Wait_for_execution requestId 300000 5000]
        \<and> waitForExecution os requestId 300000 5000 = Inr ()"
  by (auto simp: bridgePayment_def Let_def split: option.splits sum.splits if_splits)

lemma valid_disposition:
  "valid_header_value (''attachment; filename='' @ [CHR 0x22] @ n @ [CHR 0x22])
     = valid_header_value n"
  by (simp add: valid_header_value_def valid_header_unit_def)

lemma download_absent:
  "getFileByCommp (db b) c = None \<Longrightarrow>
     get_download env c b = (Json 404 (JObject [(''error'', JString ''File not found'')]), b)"
  by (simp add: get_download_def)

lemma download_present:
  assumes "getFileByCommp (db b) c = Some f" and "synapse (service b) = Some i"
  shows "get_download env c b =
     (case synapse_download env c of
        Inl e \<Rightarrow> (Json 500 (JObject [(''error'', JString ''Failed to download file''),
                    (''message'', JString (message e))]),
                  b\<lparr>calls := calls b @ [Synapse_download_call c]\<rparr>)
      | Inr data \<Rightarrow>
          (if valid_header_value (file_name f)
           then Send \<lparr>content_type = ''application/octet-stream'',
                 content_disposition =
                   ''attachment; filename='' @ [CHR 0x22] @ file_name f @ [CHR 0x22],
                 content_length = length data\<rparr> data
           else Json 500 (JObject [(''error'', JString ''Failed to download file''),
                   (''message'', JString (''Invalid character in header content [''
                      @ [CHR 0x22] @ ''Content-Disposition'' @ [CHR 0x22] @ '']''))]),
           b\<lparr>calls := calls b @ [Synapse_download_call c]\<rparr>))"
  using assms
  by (simp add: get_download_def SynapseService_downloadFile_def Let_def
      valid_disposition [simplified] split: sum.splits)

section \<open>C1: settlement before the storage write\<close>

text \<open>
  C1. The claim asks that no storage write happens before the transfer watcher has
  reported a terminal state. In the sources the wait lives in \<open>bridgePayment\<close>, which
  returns a request id only after \<open>waitForExecution\<close> resolved (\<open>bridgePayment_waits\<close>).
  \<open>uploadFile\<close> does not call it: whatever the backend answers, whatever the arguments,
  the calls it makes contain no swap and no wait, and when it reaches the backend it posts
  the constant transfer reference \<open>0x1234567890\<close> and the fixed amount under the
  caller's address, which is all the route handler asks for before it starts the upload.
\<close>

theorem uploadFile_skips_settlement:
  "filter is_settlement_call (snd (SynapseStorageClient_uploadFile fetch cl params)) = []
   \<and> (snd (SynapseStorageClient_uploadFile fetch cl params) = []
      \<or> (\<exists>fd. snd (SynapseStorageClient_uploadFile fetch cl params) = [Post_initiate_storage fd]
              \<and> fd_bridgeRequestId fd = ''0x1234567890''
              \<and> fd_paymentAmount fd = ''100000000000000000''
              \<and> fd_userAddress fd = up_userAddress params))"
  by (auto simp: SynapseStorageClient_uploadFile_def Let_def is_settlement_call_def
      toString_payment split: option.splits sum.splits file_arg.splits)

section \<open>C2: a repeated request\<close>




section \<open>C3: one stored record per transfer reference\<close>

text \<open>
  C3, as the code has it. The only uniqueness the table enforces is that of the primary
  key: starting from a table with pairwise different ids, \<open>createUserFile\<close> keeps the ids
  pairwise different, succeeds exactly when the new id is not yet present, then appends
  the row with \<open>uploaded_at\<close> NULL, and otherwise leaves the table alone; whether it
  succeeds does not depend on the transfer reference of the new row or of any row in the
  table; and \<open>updateUserFile\<close> changes no id.
\<close>

theorem primary_key_is_the_only_uniqueness:
  assumes "distinct (map uf_id d)"
  shows "distinct (map uf_id (fst (snd (createUserFile d f))))
       \<and> (fst (createUserFile d f) = Inr () \<longleftrightarrow> uf_id f \<notin> set (map uf_id d))
       \<and> (uf_id f \<notin> set (map uf_id d) \<longrightarrow>
            fst (snd (createUserFile d f)) = d @ [f\<lparr>uploaded_at := None\<rparr>])
       \<and> (uf_id f \<in> set (map uf_id d) \<longrightarrow> fst (snd (createUserFile d f)) = d)
       \<and> fst (createUserFile (map (\<lambda>r. r\<lparr>bridge_request_id := t r\<rparr>) d)
                (f\<lparr>bridge_request_id := t'\<rparr>)) = fst (createUserFile d f)
       \<and> map uf_id (fst (snd (updateUserFile d i u))) = map uf_id d"
  using assms
  by (auto simp: createUserFile_def updateUserFile_def Let_def ids_run_update comp_def)

text \<open>
  The theorem at the example: a second row for the same transfer under a new id, and a
  row under the id that is in the table.
\<close>

theorem primary_key_is_the_only_uniqueness_witness:
  "distinct (map uf_id [example_row])
   \<and> fst (createUserFile [example_row] (example_row\<lparr>uf_id := ''uuid-1''\<rparr>)) = Inr ()
   \<and> fst (snd (createUserFile [example_row] (example_row\<lparr>uf_id := ''uuid-1''\<rparr>)))
       = [example_row, example_row\<lparr>uf_id := ''uuid-1'', uploaded_at := None\<rparr>]
   \<and> fst (snd (createUserFile [example_row] example_row)) = [example_row]"
  using primary_key_is_the_only_uniqueness [of "[example_row]" "example_row\<lparr>uf_id := ''uuid-1''\<rparr>"]
    primary_key_is_the_only_uniqueness [of "[example_row]" example_row]
  by (simp add: example_row_def)

text \<open>
  C3 as stated fails: with one stored record for the transfer \<open>0x1234567890\<close> in the table,
  the insertion of a second stored record for the same transfer succeeds, and so does
  the finalising update of a second pending record for it; either way two stored records
  reference the transfer.
\<close>

theorem transfer_redeemed_twice:
  "transfer_refs_unique [example_row]
   \<and> fst (createUserFile [example_row] (example_row\<lparr>uf_id := ''uuid-1''\<rparr>)) = Inr ()
   \<and> \<not> transfer_refs_unique
         (fst (snd (createUserFile [example_row] (example_row\<lparr>uf_id := ''uuid-1''\<rparr>))))
   \<and> transfer_refs_unique [example_row, example_row\<lparr>uf_id := ''uuid-1'', commp := None\<rparr>]
   \<and> fst (updateUserFile [example_row, example_row\<lparr>uf_id := ''uuid-1'', commp := None\<rparr>]
            ''uuid-1''
            \<lparr>upd_commp = Some (Some ''bafkzcib-hello''), upd_provider_id = None,
             upd_uploaded_at = None\<rparr>) = Inr ()
   \<and> \<not> transfer_refs_unique
         (fst (snd (updateUserFile
            [example_row, example_row\<lparr>uf_id := ''uuid-1'', commp := None\<rparr>] ''uuid-1''
            \<lparr>upd_commp = Some (Some ''bafkzcib-hello''), upd_provider_id = None,
             upd_uploaded_at = None\<rparr>)))"
  by (simp add: transfer_refs_unique_def stored_def createUserFile_def updateUserFile_def
      run_update_def example_row_def Let_def)

section \<open>C4: the pending record\<close>



section \<open>C5: validation\<close>

text \<open>
  C5. A request without a file, without a non-empty \<open>userAddress\<close>, without a non-empty
  \<open>bridgeRequestId\<close> or without a non-empty \<open>paymentAmount\<close> is answered with status 400
  and the message of the first field that is missing, and the server is left exactly as
  it was: no identifier drawn, no row written, no call made, whatever the upload service.
\<close>

theorem validation_fails_fast:
  "(req_file req = None \<longrightarrow>
      post_initiate_storage iu req s
        = (Json 400 (JObject [(''error'', JString ''No file provided'')]), s))
   \<and> (req_file req \<noteq> None \<and> \<not> truthy (req_userAddress req) \<longrightarrow>
      post_initiate_storage iu req s
        = (Json 400 (JObject [(''error'', JString ''userAddress is required'')]), s))
   \<and> (req_file req \<noteq> None \<and> truthy (req_userAddress req)
        \<and> \<not> truthy (req_bridgeRequestId req) \<longrightarrow>
      post_initiate_storage iu req s
        = (Json 400 (JObject [(''error'',
             JString ''bridgeRequestId is required - payment must be made before upload'')]), s))
   \<and> (req_file req \<noteq> None \<and> truthy (req_userAddress req)
        \<and> truthy (req_bridgeRequestId req) \<and> \<not> truthy (req_paymentAmount req) \<longrightarrow>
      post_initiate_storage iu req s
        = (Json 400 (JObject [(''error'', JString ''paymentAmount is required'')]), s))"
  by (auto simp: post_initiate_storage_def split: option.splits)

theorem validation_fails_fast_witness:
  "post_initiate_storage (initiateUpload example_env example_config)
       (example_request\<lparr>req_file := None\<rparr>) example_server
     = (Json 400 (JObject [(''error'', JString ''No file provided'')]), example_server)
   \<and> post_initiate_storage (initiateUpload example_env example_config)
       (example_request\<lparr>req_userAddress := Some ''''\<rparr>) example_server
     = (Json 400 (JObject [(''error'', JString ''userAddress is required'')]), example_server)
   \<and> post_initiate_storage (initiateUpload example_env example_config)
       (example_request\<lparr>req_bridgeRequestId := None\<rparr>) example_server
     = (Json 400 (JObject [(''error'',
          JString ''bridgeRequestId is required - payment must be made before upload'')]),
        example_server)
   \<and> post_initiate_storage (initiateUpload example_env example_config)
       (example_request\<lparr>req_paymentAmount := None\<rparr>) example_server
     = (Json 400 (JObject [(''error'', JString ''paymentAmount is required'')]), example_server)"
  using validation_fails_fast [of "example_request\<lparr>req_file := None\<rparr>"
      "initiateUpload example_env example_config" example_server]
    validation_fails_fast [of "example_request\<lparr>req_userAddress := Some ''''\<rparr>"
      "initiateUpload example_env example_config" example_server]
    validation_fails_fast [of "example_request\<lparr>req_bridgeRequestId := None\<rparr>"
      "initiateUpload example_env example_config" example_server]
    validation_fails_fast [of "example_request\<lparr>req_paymentAmount := None\<rparr>"
      "initiateUpload example_env example_config" example_server]
  by (simp add: example_request_def truthy_def)

section \<open>C6: retrieval\<close>

text \<open>
  C6. When no row has the requested content address, the answer is 404 and the backend is
  unchanged, so no call reached the storage network. When a row has it and the service is
  initialised (as it is once the server has started), exactly one download of that address
  is added to the calls and the table is unchanged. When the download returns bytes, the
  answer is those bytes with the row's file name in the headers if that file name is valid
  header content; if it is not, \<open>setHeader\<close> throws after the download and the answer
  is 500: the bytes the network returned are not returned.
\<close>

theorem download_fails_on_file_name:
  "((\<forall>r\<in>set (db b). commp r \<noteq> Some c) \<longrightarrow>
      get_download env c b = (Json 404 (JObject [(''error'', JString ''File not found'')]), b))
   \<and> ((\<exists>r\<in>set (db b). commp r = Some c) \<and> synapse (service b) \<noteq> None \<longrightarrow>
        calls (snd (get_download env c b)) = calls b @ [Synapse_download_call c]
        \<and> db (snd (get_download env c b)) = db b)
   \<and> (\<forall>f data. getFileByCommp (db b) c = Some f \<and> synapse (service b) \<noteq> None
          \<and> synapse_download env c = Inr data \<longrightarrow>
        (valid_header_value (file_name f) \<longrightarrow>
           get_download env c b =
             (Send \<lparr>content_type = ''application/octet-stream'',
                    content_disposition =
                      ''attachment; filename='' @ [CHR 0x22] @ file_name f @ [CHR 0x22],
                    content_length = length data\<rparr> data,
              b\<lparr>calls := calls b @ [Synapse_download_call c]\<rparr>))
        \<and> (\<not> valid_header_value (file_name f) \<longrightarrow>
           get_download env c b =
             (Json 500 (JObject [(''error'', JString ''Failed to download file''),
                (''message'', JString (''Invalid character in header content [''
                   @ [CHR 0x22] @ ''Content-Disposition'' @ [CHR 0x22] @ '']''))]),
              b\<lparr>calls := calls b @ [Synapse_download_call c]\<rparr>)))"
proof (intro conjI impI allI)
  assume "\<forall>r\<in>set (db b). commp r \<noteq> Some c"
  then have "getFileByCommp (db b) c = None"
    by (simp add: getFileByCommp_None)
  then show "get_download env c b
      = (Json 404 (JObject [(''error'', JString ''File not found'')]), b)"
    by (rule download_absent)
next
  assume h: "(\<exists>r\<in>set (db b). commp r = Some c) \<and> synapse (service b) \<noteq> None"
  then obtain f i where f: "getFileByCommp (db b) c = Some f" and i: "synapse (service b) = Some i"
    using getFileByCommp_None [of "db b" c] by (cases "getFileByCommp (db b) c") auto
  show "calls (snd (get_download env c b)) = calls b @ [Synapse_download_call c]"
    by (simp add: download_present [OF f i] split: sum.splits)
  show "db (snd (get_download env c b)) = db b"
    by (simp add: download_present [OF f i] split: sum.splits)
next
  fix f data
  assume h: "getFileByCommp (db b) c = Some f \<and> synapse (service b) \<noteq> None
          \<and> synapse_download env c = Inr data"
    and v: "valid_header_value (file_name f)"
  then obtain i where i: "synapse (service b) = Some i" by auto
  from h have f: "getFileByCommp (db b) c = Some f" and d: "synapse_download env c = Inr data"
    by simp_all
  show "get_download env c b =
          (Send \<lparr>content_type = ''application/octet-stream'',
                 content_disposition =
                   ''attachment; filename='' @ [CHR 0x22] @ file_name f @ [CHR 0x22],
                 content_length = length data\<rparr> data,
           b\<lparr>calls := calls b @ [Synapse_download_call c]\<rparr>)"
    by (simp add: download_present [OF f i] d v)
next
  fix f data
  assume h: "getFileByCommp (db b) c = Some f \<and> synapse (service b) \<noteq> None
          \<and> synapse_download env c = Inr data"
    and v: "\<not> valid_header_value (file_name f)"
  then obtain i where i: "synapse (service b) = Some i" by auto
  from h have f: "getFileByCommp (db b) c = Some f" and d: "synapse_download env c = Inr data"
    by simp_all
  show "get_download env c b =
             (Json 500 (JObject [(''error'', JString ''Failed to download file''),
                (''message'', JString (''Invalid character in header content [''
                   @ [CHR 0x22] @ ''Content-Disposition'' @ [CHR 0x22] @ '']''))]),
              b\<lparr>calls := calls b @ [Synapse_download_call c]\<rparr>)"
    by (simp add: download_present [OF f i] d v)
qed

text \<open>
  The theorem at the example: an unknown address, the address of the example record, and
  the same address when the record's file name has a line feed in it.
\<close>

theorem download_fails_on_file_name_witness:
  "get_download example_env ''bafk-unknown'' example_backend
     = (Json 404 (JObject [(''error'', JString ''File not found'')]), example_backend)
   \<and> get_download example_env ''bafkzcib-hello'' example_backend
     = (Send \<lparr>content_type = ''application/octet-stream'',
              content_disposition =
                ''attachment; filename='' @ [CHR 0x22] @ ''hello.txt'' @ [CHR 0x22],
              content_length = 5\<rparr> [104, 101, 108, 108, 111],
        example_backend\<lparr>calls := [Synapse_download_call ''bafkzcib-hello'']\<rparr>)
   \<and> get_download example_env ''bafkzcib-hello'' (example_backend\<lparr>db := [example_control_row]\<rparr>)
     = (Json 500 (JObject [(''error'', JString ''Failed to download file''),
                (''message'', JString (''Invalid character in header content [''
                   @ [CHR 0x22] @ ''Content-Disposition'' @ [CHR 0x22] @ '']''))]),
        example_backend\<lparr>db := [example_control_row],
                         calls := [Synapse_download_call ''bafkzcib-hello'']\<rparr>)"
proof -
  have n: "\<forall>r\<in>set (db example_backend). commp r \<noteq> Some ''bafk-unknown''"
    by (simp add: example_backend_def example_row_def)
  have s: "synapse (service example_backend) \<noteq> None"
    "synapse (service (example_backend\<lparr>db := [example_control_row]\<rparr>)) \<noteq> None"
    by (simp_all add: example_backend_def example_service_def)
  have d: "synapse_download example_env ''bafkzcib-hello'' = Inr [104, 101, 108, 108, 111]"
    by (simp add: example_env_def)
  have f: "getFileByCommp (db example_backend) ''bafkzcib-hello'' = Some example_row"
    by (simp add: getFileByCommp_def example_backend_def example_row_def)
  have f': "getFileByCommp (db (example_backend\<lparr>db := [example_control_row]\<rparr>))
       ''bafkzcib-hello'' = Some example_control_row"
    by (simp add: getFileByCommp_def example_control_row_def example_row_def)
  have v: "valid_header_value (file_name example_row)"
    by (simp add: example_row_def valid_header_value_def valid_header_unit_def)
  have v': "\<not> valid_header_value (file_name example_control_row)"
    by (simp add: example_control_row_def valid_header_value_def valid_header_unit_def)
  have c: "calls example_backend = []"
    "file_name example_row = ''hello.txt''"
    by (simp_all add: example_backend_def example_row_def)
  note t = download_fails_on_file_name
  from t [of example_backend "''bafk-unknown''" example_env] n
  have 1: "get_download example_env ''bafk-unknown'' example_backend
     = (Json 404 (JObject [(''error'', JString ''File not found'')]), example_backend)"
    by simp
  from t [of example_backend "''bafkzcib-hello''" example_env] s d f v
  have 2: "get_download example_env ''bafkzcib-hello'' example_backend
     = (Send \<lparr>content_type = ''application/octet-stream'',
              content_disposition =
                ''attachment; filename='' @ [CHR 0x22] @ file_name example_row @ [CHR 0x22],
              content_length = length [104, 101, 108, 108, 111 :: 8 word]\<rparr> [104, 101, 108, 108, 111],
        example_backend\<lparr>calls := calls example_backend @ [Synapse_download_call ''bafkzcib-hello'']\<rparr>)"
    by simp
  from t [of "example_backend\<lparr>db := [example_control_row]\<rparr>" "''bafkzcib-hello''" example_env]
    s d f' v'
  have 3: "get_download example_env ''bafkzcib-hello'' (example_backend\<lparr>db := [example_control_row]\<rparr>)
     = (Json 500 (JObject [(''error'', JString ''Failed to download file''),
                (''message'', JString (''Invalid character in header content [''
                   @ [CHR 0x22] @ ''Content-Disposition'' @ [CHR 0x22] @ '']''))]),
        example_backend\<lparr>db := [example_control_row],
            calls := calls (example_backend\<lparr>db := [example_control_row]\<rparr>)
                       @ [Synapse_download_call ''bafkzcib-hello'']\<rparr>)"
    by simp
  from 1 2 3 show ?thesis
    by (simp add: c)
qed

section \<open>C7: an already settled transfer\<close>

text \<open>
  C7. When the first status query of the example succeeds and reports the request
  executed or fulfilled, \<open>main\<close> returns after that query: the two fetches are its only
  calls, \<open>waitForExecution\<close> (and with it every sleep between polls) is never entered,
  whatever the later queries would have answered.
\<close>

theorem main_returns_without_waiting:
  assumes "currentParams = Inr executed" and "currentReceipt = Inr fulfilled"
    and "executed \<or> fulfilled"
  shows "main_wait requestId currentParams currentReceipt waited laterParams laterReceipt
           = (Returned, [Fetch_request_params requestId, Fetch_fulfillment_receipt requestId])"
  using assms by (auto simp: main_wait_def)

theorem main_returns_without_waiting_witness:
  "main_wait ''0xreq'' (Inr False) (Inr True) (Inl (Error ''timeout'')) (Inl (Error ''rpc''))
       (Inl (Error ''rpc''))
     = (Returned, [Fetch_request_params ''0xreq'', Fetch_fulfillment_receipt ''0xreq''])
   \<and> main_wait ''0xreq'' (Inr True) (Inr False) (Inr ()) (Inr True) (Inr False)
     = (Returned, [Fetch_request_params ''0xreq'', Fetch_fulfillment_receipt ''0xreq''])"
  using main_returns_without_waiting [of "Inr False" False "Inr True" True "''0xreq''"
      "Inl (Error ''timeout'')" "Inl (Error ''rpc'')" "Inl (Error ''rpc'')"]
    main_returns_without_waiting [of "Inr True" True "Inr False" False "''0xreq''"
      "Inr ()" "Inr True" "Inr False"]
  by simp

section \<open>C8: lowercase owner addresses\<close>



section \<open>C9: what an update may change\<close>

text \<open>
  C9. \<open>updateUserFile\<close> always resolves. It keeps the number and order of the rows; in
  every row the columns \<open>id\<close>, \<open>user_address\<close>, \<open>file_name\<close>, \<open>file_size\<close>, \<open>file_hash\<close>,
  \<open>bridge_request_id\<close> and \<open>payment_amount\<close> are what they were; a row with another id is
  unchanged in every column; and with none of \<open>commp\<close>, \<open>provider_id\<close> and \<open>uploaded_at\<close>
  supplied the table is unchanged and no statement is run.
\<close>

theorem updateUserFile_frame:
  assumes "updateUserFile d i u = (res, d', stmts)"
  shows "res = Inr () \<and> length d' = length d
       \<and> map frame_columns d' = map frame_columns d
       \<and> (\<forall>k < length d. uf_id (d ! k) \<noteq> i \<longrightarrow> d' ! k = d ! k)
       \<and> (upd_commp u = None \<and> upd_provider_id u = None \<and> upd_uploaded_at u = None
            \<longrightarrow> d' = d \<and> stmts = [])"
proof -
  have "res = Inr ()"
    using assms by (auto simp: updateUserFile_def Let_def split: if_splits)
  moreover have "d' = d \<or> (\<exists>as. d' = run_update as i d)"
    using assms by (auto simp: updateUserFile_def Let_def split: if_splits)
  moreover have "upd_commp u = None \<and> upd_provider_id u = None \<and> upd_uploaded_at u = None
      \<longrightarrow> d' = d \<and> stmts = []"
    using assms by (auto simp: updateUserFile_def Let_def)
  ultimately show ?thesis
    by (auto simp: frame_run_update run_update_other) (simp_all add: run_update_def)
qed

text \<open>
  The theorem at the example: finalising the second of two rows, and an update that
  supplies nothing.
\<close>

theorem updateUserFile_frame_witness:
  "updateUserFile [example_row, example_row\<lparr>uf_id := ''uuid-1'', commp := None\<rparr>] ''uuid-1''
       \<lparr>upd_commp = Some (Some ''bafk-two''), upd_provider_id = None, upd_uploaded_at = None\<rparr>
     = (Inr (), [example_row, example_row\<lparr>uf_id := ''uuid-1'', commp := Some ''bafk-two''\<rparr>],
        [Update [Set_commp (Some ''bafk-two'')] ''uuid-1''])
   \<and> map frame_columns
        [example_row, example_row\<lparr>uf_id := ''uuid-1'', commp := Some ''bafk-two''\<rparr>]
       = map frame_columns [example_row, example_row\<lparr>uf_id := ''uuid-1'', commp := None\<rparr>]
   \<and> updateUserFile [example_row] ''uuid-''
       \<lparr>upd_commp = None, upd_provider_id = None, upd_uploaded_at = None\<rparr>
     = (Inr (), [example_row], [])"
proof -
  have e1: "updateUserFile [example_row, example_row\<lparr>uf_id := ''uuid-1'', commp := None\<rparr>]
       ''uuid-1''
       \<lparr>upd_commp = Some (Some ''bafk-two''), upd_provider_id = None, upd_uploaded_at = None\<rparr>
     = (Inr (), [example_row, example_row\<lparr>uf_id := ''uuid-1'', commp := Some ''bafk-two''\<rparr>],
        [Update [Set_commp (Some ''bafk-two'')] ''uuid-1''])"
    by (simp add: updateUserFile_def run_update_def example_row_def)
  have e2: "updateUserFile [example_row] ''uuid-''
       \<lparr>upd_commp = None, upd_provider_id = None, upd_uploaded_at = None\<rparr>
     = (Inr (), [example_row], [])"
    by (simp add: updateUserFile_def)
  from updateUserFile_frame [OF e1]
  have "map frame_columns
        [example_row, example_row\<lparr>uf_id := ''uuid-1'', commp := Some ''bafk-two''\<rparr>]
       = map frame_columns [example_row, example_row\<lparr>uf_id := ''uuid-1'', commp := None\<rparr>]"
    by blast
  with e1 e2 show ?thesis
    by blast
qed

section \<open>C10: initialising twice\<close>

text \<open>
  C10. On an initialised service \<open>initialize\<close> resolves at once, with the service as it
  was and without a call of \<open>Synapse.create\<close>. Hence, on every service and in every
  environment, \<open>initialize\<close> awaited twice gives the result, the service and the calls of
  \<open>initialize\<close> awaited once.
\<close>

theorem initialize_idempotent:
  "(isInitialized svc \<longrightarrow> initialize env svc = (Inr (), svc, []))
   \<and> initialize_twice env svc = initialize env svc"
  by (auto simp: initialize_twice_def initialize_def Let_def split: sum.splits prod.splits)

theorem initialize_idempotent_witness:
  "isInitialized example_service
   \<and> initialize example_env example_service = (Inr (), example_service, [])
   \<and> initialize_twice example_env (new_SynapseService ''0xkey'' ''0xbackend'')
       = (Inr (), example_service,
          [Synapse_create_call ''0xkey'' ''wss://api.calibration.node.glif.io/rpc/v1''])
   \<and> initialize example_env (new_SynapseService ''0xkey'' ''0xbackend'')
       = (Inr (), example_service,
          [Synapse_create_call ''0xkey'' ''wss://api.calibration.node.glif.io/rpc/v1''])"
proof -
  have i: "isInitialized example_service"
    by (simp add: example_service_def)
  have e: "initialize example_env (new_SynapseService ''0xkey'' ''0xbackend'')
       = (Inr (), example_service,
          [Synapse_create_call ''0xkey'' ''wss://api.calibration.node.glif.io/rpc/v1''])"
    by (simp add: initialize_def new_SynapseService_def example_env_def example_service_def
        truthy_def startsWith_def)
  from initialize_idempotent [of example_service example_env]
    initialize_idempotent [of "new_SynapseService ''0xkey'' ''0xbackend''" example_env] i e
  show ?thesis by simp
qed

end
